theory Spec2Isabelle
  imports
    Complex_Main
    "HOL-Library.Char_ord"
    "HOL-Library.List_Lexorder"
    "HOL-Library.Multiset"
begin

section \<open>Telemetry store of the robot-car dashboard (app.py)\<close>

text \<open>
  The module \<open>app.py\<close> reads its history from a cloud table (PostgreSQL) with a fallback to
  a local table (SQLite), polls sensor feeds and saves each poll locally, and runs a
  background loop that pushes local rows to the cloud. Exceptions are values of \<open>error\<close>;
  a computation that may raise has the type \<open>error + 'a\<close>, with \<open>Inl\<close> the exception.
\<close>

datatype error = Exception string

subsection \<open>Data model\<close>

text \<open>
  A row of the table \<open>sensor_data\<close>. The six columns named by the SELECT statements of
  \<open>get_historical_data\<close> are \<open>timestamp\<close>, \<open>ultrasonic_cm\<close>, \<open>ir_left\<close>, \<open>ir_center\<close>,
  \<open>ir_right\<close> and \<open>line_state\<close>; every column but the timestamp may hold NULL (\<open>None\<close>).

  Modelled from the spec: the CREATE TABLE statement is in \<open>database_sync\<close>, which is not
  among the sources; the columns \<open>row_id\<close> (the internal identifier) and \<open>synced\<close>
  (the local bookkeeping flag) follow the spec's data model.
\<close>

record sensor_row =
  row_id :: nat
  timestamp :: string
  ultrasonic_cm :: "real option"
  ir_left :: "int option"
  ir_center :: "int option"
  ir_right :: "int option"
  line_state :: "string option"
  synced :: bool

text \<open>The tuple \<open>(timestamp, ultrasonic_cm, ir_left, ir_center, ir_right, line_state)\<close>
  that a history query returns for a row.\<close>

type_synonym history_record =
  "string \<times> real option \<times> int option \<times> int option \<times> int option \<times> string option"

definition six_fields :: "sensor_row \<Rightarrow> history_record" where
  "six_fields r =
     (timestamp r, ultrasonic_cm r, ir_left r, ir_center r, ir_right r, line_state r)"

text \<open>
  A database as a query sees it: the rows of \<open>sensor_data\<close>, the engine's SQL function
  \<open>date\<close> (\<open>None\<close> is SQL NULL: the text is no date), and the exception, if any, that
  running the history query with a given parameter raises (connection lost, table missing,
  a parameter the engine rejects).
\<close>

record database =
  db_rows :: "sensor_row list"
  db_date :: "string \<Rightarrow> string option"
  db_fault :: "string option \<Rightarrow> error option"

subsection \<open>The history query\<close>

text \<open>Python's truth value of an optional text: \<open>None\<close> and the empty string are false.\<close>

definition truthy :: "string option \<Rightarrow> bool" where
  "truthy date_str = (case date_str of None \<Rightarrow> False | Some s \<Rightarrow> s \<noteq> [])"

text \<open>
  The WHERE clause \<open>date(timestamp) = date(?)\<close> (SQLite) and \<open>DATE(timestamp) = %s\<close>
  (PostgreSQL, which converts the parameter to a date for the comparison): the row's date
  and the parameter's date are both not NULL and are equal.
\<close>

definition on_date :: "database \<Rightarrow> string \<Rightarrow> sensor_row \<Rightarrow> bool" where
  "on_date db d r =
     (case db_date db d of
        None \<Rightarrow> False
      | Some day \<Rightarrow> db_date db (timestamp r) = Some day)"

text \<open>
  \<open>SELECT timestamp, ultrasonic_cm, ir_left, ir_center, ir_right, line_state
  FROM sensor_data [WHERE ...] ORDER BY timestamp ASC\<close>, with the WHERE clause when
  \<open>date_str\<close> is true. Timestamps are ISO-8601 strings, ordered as strings.
\<close>

definition select_history :: "database \<Rightarrow> string option \<Rightarrow> history_record list" where
  "select_history db date_str =
     map six_fields
       (sort_key timestamp
          (case date_str of
             None \<Rightarrow> db_rows db
           | Some d \<Rightarrow> if d \<noteq> [] then filter (on_date db d) (db_rows db) else db_rows db))"

text \<open>\<open>c.execute(...)\<close> followed by \<open>c.fetchall()\<close>: the exception or the selected records.\<close>

definition execute_fetchall :: "database \<Rightarrow> string option \<Rightarrow> error + history_record list" where
  "execute_fetchall db date_str =
     (case db_fault db date_str of
        Some e \<Rightarrow> Inl e
      | None \<Rightarrow> Inr (select_history db date_str))"

subsection \<open>get_historical_data\<close>

text \<open>
  What the function reads: the process environment, the outcome of
  \<open>get_cloud_connection()\<close> and the local database file.

  Modelled from the spec: \<open>get_cloud_connection\<close> is defined in \<open>database_sync\<close>, which is
  not among the sources; by the spec it returns the connection, or none with an error
  description, and never raises.
\<close>

record world =
  environ :: "string \<rightharpoonup> string"
  get_cloud_connection :: "database option \<times> string"
  LOCAL_DB :: database

text \<open>\<open>CLOUD_DB_URL = os.environ.get("DATABASE_URL", "")\<close>\<close>

definition CLOUD_DB_URL :: "world \<Rightarrow> string" where
  "CLOUD_DB_URL w = (case environ w ''DATABASE_URL'' of None \<Rightarrow> [] | Some url \<Rightarrow> url)"

text \<open>The database operations a call performs, in order.\<close>

datatype effect =
    CloudConnect
  | CloudQuery "string option"
  | CloudClose
  | LocalQuery "string option"

text \<open>The local branch: the records of the local query, or \<open>[]\<close> when it raises.\<close>

definition local_history :: "world \<Rightarrow> string option \<Rightarrow> (error + history_record list) \<times> effect list" where
  "local_history w date_str =
     (case execute_fetchall (LOCAL_DB w) date_str of
        Inr records \<Rightarrow> (Inr records, [LocalQuery date_str])
      | Inl e \<Rightarrow> (Inr [], [LocalQuery date_str]))"

text \<open>
  The whole function: the cloud first when \<open>CLOUD_DB_URL\<close> is not empty; its records are
  returned as they are (also when there are none); when there is no connection or the cloud
  query raises, the connection is closed and the local branch runs after it.
\<close>

definition get_historical_data :: "world \<Rightarrow> string option \<Rightarrow> (error + history_record list) \<times> effect list" where
  "get_historical_data w date_str =
     (if CLOUD_DB_URL w \<noteq> [] then
        (case get_cloud_connection w of
           (Some conn, err) \<Rightarrow>
             (case execute_fetchall conn date_str of
                Inr result \<Rightarrow> (Inr result, [CloudConnect, CloudQuery date_str, CloudClose])
              | Inl e \<Rightarrow>
                  (let (r, effs) = local_history w date_str
                   in (r, [CloudConnect, CloudQuery date_str, CloudClose] @ effs)))
         | (None, err) \<Rightarrow>
             (let (r, effs) = local_history w date_str
              in (r, [CloudConnect] @ effs)))
      else local_history w date_str)"

text \<open>The cloud read path fails: no connection, or the query on the connection raises.\<close>

definition cloud_read_fails :: "world \<Rightarrow> string option \<Rightarrow> bool" where
  "cloud_read_fails w date_str =
     (case fst (get_cloud_connection w) of
        None \<Rightarrow> True
      | Some conn \<Rightarrow> (case execute_fetchall conn date_str of Inl e \<Rightarrow> True | Inr rs \<Rightarrow> False))"

subsection \<open>The query contract in the words of the specification\<close>

text \<open>
  The date portion of a timestamp. Timestamps are written by \<open>datetime.now().isoformat()\<close>,
  as \<open>YYYY-MM-DDTHH:MM:SS\<close> with an optional fraction: the date portion is the first ten
  characters.
\<close>

definition date_portion :: "string \<Rightarrow> string" where
  "date_portion ts = take 10 ts"

text \<open>
  \<open>records\<close> answers the history query on the rows of a table: ordered by timestamp
  ascending, and exactly the six fields of every row (no filter, or the empty one) or of
  the rows whose timestamp's date portion equals the filter (any other filter), each as
  often as the table holds it.
\<close>

definition history_contract :: "sensor_row list \<Rightarrow> string option \<Rightarrow> history_record list \<Rightarrow> bool" where
  "history_contract rows date_str records \<longleftrightarrow>
     sorted (map fst records) \<and>
     mset records =
       (case date_str of
          None \<Rightarrow> image_mset six_fields (mset rows)
        | Some d \<Rightarrow>
            if d = [] then image_mset six_fields (mset rows)
            else image_mset six_fields
                   (filter_mset (\<lambda>r. date_portion (timestamp r) = d) (mset rows)))"

text \<open>
  What the contract takes for granted of the SQL engine when a filter is given and not
  empty: the filter is a calendar date, which the engine's \<open>date\<close> reads as itself, and
  the engine's \<open>date\<close> of every stored timestamp is its date portion.
\<close>

definition reads_dates :: "database \<Rightarrow> string option \<Rightarrow> bool" where
  "reads_dates db date_str =
     (case date_str of
        None \<Rightarrow> True
      | Some d \<Rightarrow>
          d = [] \<or>
          (db_date db d = Some d \<and>
           list_all (\<lambda>r. db_date db (timestamp r) = Some (date_portion (timestamp r)))
             (db_rows db)))"

subsection \<open>JSON responses\<close>

text \<open>The JSON values the endpoints send, and \<open>jsonify(body), status\<close>.\<close>

datatype json = JNull | JString string | JInt int | JReal real | JArray "json list"

datatype response = Response "(string \<times> json) list" nat

text \<open>How \<open>jsonify\<close> writes an optional value: Python's \<open>None\<close> becomes \<open>null\<close>.\<close>

definition json_of_real :: "real option \<Rightarrow> json" where
  "json_of_real v = (case v of None \<Rightarrow> JNull | Some x \<Rightarrow> JReal x)"

definition json_of_int :: "int option \<Rightarrow> json" where
  "json_of_int v = (case v of None \<Rightarrow> JNull | Some i \<Rightarrow> JInt i)"

definition json_of_str :: "string option \<Rightarrow> json" where
  "json_of_str v = (case v of None \<Rightarrow> JNull | Some t \<Rightarrow> JString t)"

subsection \<open>api_historical_data\<close>

text \<open>
  The request body is \<open>request.json\<close>: reading it raises for a body that is not JSON;
  otherwise it is an object, here with values that are strings or null (the only key read
  is \<open>date\<close>). The expression \<open>r[5] if r[5] else ""\<close> gives the text of the line state, and
  the empty text for \<open>None\<close>; the numeric expressions \<open>r[i] if r[i] is not None else None\<close>
  give \<open>r[i]\<close>.
\<close>

definition line_state_text :: "string option \<Rightarrow> string" where
  "line_state_text v = (if truthy v then (case v of Some t \<Rightarrow> t | None \<Rightarrow> []) else [])"

definition historical_payload :: "history_record list \<Rightarrow> (string \<times> json) list" where
  "historical_payload records =
     [(''timestamps'', JArray (map (\<lambda>(ts, u, l, c, r, ls). JString ts) records)),
      (''ultrasonic'', JArray (map (\<lambda>(ts, u, l, c, r, ls). json_of_real u) records)),
      (''ir_left'', JArray (map (\<lambda>(ts, u, l, c, r, ls). json_of_int l) records)),
      (''ir_center'', JArray (map (\<lambda>(ts, u, l, c, r, ls). json_of_int c) records)),
      (''ir_right'', JArray (map (\<lambda>(ts, u, l, c, r, ls). json_of_int r) records)),
      (''line_state'', JArray (map (\<lambda>(ts, u, l, c, r, ls). JString (line_state_text ls)) records))]"

definition request_date :: "(string \<times> string option) list \<Rightarrow> string option" where
  "request_date body = (case map_of body ''date'' of None \<Rightarrow> None | Some v \<Rightarrow> v)"

definition api_historical_data ::
  "world \<Rightarrow> error + (string \<times> string option) list \<Rightarrow> response \<times> effect list" where
  "api_historical_data w request_json =
     (case request_json of
        Inl e \<Rightarrow> (Response [(''error'', JString ''Internal server error'')] 500, [])
      | Inr body \<Rightarrow>
          if body = [] then (Response [(''error'', JString ''JSON body required'')] 400, [])
          else
            (case get_historical_data w (request_date body) of
               (Inl e, effs) \<Rightarrow>
                 (Response [(''error'', JString ''Internal server error'')] 500, effs)
             | (Inr records, effs) \<Rightarrow> (Response (historical_payload records) 200, effs)))"

subsection \<open>get_adafruit_data and api_live_data\<close>

text \<open>
  What Python's \<open>float\<close> gives for a text: a number, or one of the special values that
  \<open>float("inf")\<close>, \<open>float("-inf")\<close> and \<open>float("nan")\<close> give without raising.
\<close>

datatype pyfloat = Finite real | Inf | Neg_inf | Nan

text \<open>The keyword arguments of \<open>save_to_local_db\<close>: the timestamp and the five readings.\<close>

type_synonym sample =
  "string \<times> pyfloat option \<times> int option \<times> int option \<times> int option \<times> string option"

text \<open>
  An answer of the feed service: the status code, and what \<open>response.json().get("value")\<close>
  gives (it may raise, and the value may be missing).
\<close>

record http_response =
  status_code :: nat
  json_value :: "error + string option"

text \<open>
  What a live-data request reads from outside: the feed configuration, the network, the
  clock at the poll of each feed, \<open>datetime.now().isoformat()\<close>, Python's \<open>float\<close> and
  \<open>int\<close> on a text (they raise ValueError on a text that is no number), and
  \<open>save_to_local_db\<close>.

  Modelled from the spec: \<open>save_to_local_db\<close> is defined in \<open>database_sync\<close>, which is not
  among the sources; it is a parameter that gives the table after the insert, or raises and
  leaves the table as it was.
\<close>

record live_env =
  AIO_USERNAME :: string
  AIO_KEY :: string
  AIO_FEEDS :: "string \<rightharpoonup> string"
  requests_get :: "string \<Rightarrow> error + http_response"
  time_time :: "string \<Rightarrow> real"
  datetime_now :: string
  float_of :: "string \<Rightarrow> error + pyfloat"
  int_of :: "string \<Rightarrow> error + int"
  save_to_local_db :: "sample \<Rightarrow> sensor_row list \<Rightarrow> error + sensor_row list"

text \<open>The module's mutable state: the two cache dictionaries, the local table, and what
  was printed.\<close>

record live_state =
  adafruit_cache :: "string \<rightharpoonup> string option"
  adafruit_cache_time :: "string \<rightharpoonup> real"
  local_rows :: "sensor_row list"
  stdout :: "string list"

definition ADAFRUIT_CACHE_TTL :: real where
  "ADAFRUIT_CACHE_TTL = 10"

definition message :: "error \<Rightarrow> string" where
  "message e = (case e of Exception m \<Rightarrow> m)"

definition print :: "string \<Rightarrow> live_state \<Rightarrow> live_state" where
  "print line s = s\<lparr>stdout := stdout s @ [line]\<rparr>"

text \<open>\<open>_adafruit_cache.get(feed_key)\<close>\<close>

definition cache_get :: "live_state \<Rightarrow> string \<Rightarrow> string option" where
  "cache_get s feed_key = (case adafruit_cache s feed_key of None \<Rightarrow> None | Some v \<Rightarrow> v)"

text \<open>\<open>feed_key in _adafruit_cache\<close> and the entry is younger than the time to live.\<close>

definition cache_fresh :: "live_state \<Rightarrow> string \<Rightarrow> real \<Rightarrow> bool" where
  "cache_fresh s feed_key now =
     (case adafruit_cache s feed_key of
        None \<Rightarrow> False
      | Some v \<Rightarrow>
          now - (case adafruit_cache_time s feed_key of None \<Rightarrow> 0 | Some t \<Rightarrow> t)
            < ADAFRUIT_CACHE_TTL)"

definition feed_url :: "live_env \<Rightarrow> string \<Rightarrow> string" where
  "feed_url env feed_name =
     ''https://io.adafruit.com/api/v2/'' @ AIO_USERNAME env @ ''/feeds/'' @ feed_name
       @ ''/data/last''"

definition get_adafruit_data :: "live_env \<Rightarrow> string \<Rightarrow> live_state \<Rightarrow> string option \<times> live_state" where
  "get_adafruit_data env feed_key s =
     (if AIO_USERNAME env = [] \<or> AIO_KEY env = [] then (None, s)
      else
        let now = time_time env feed_key in
        if cache_fresh s feed_key now then (cache_get s feed_key, s)
        else
          let feed_name = (case AIO_FEEDS env feed_key of None \<Rightarrow> [] | Some n \<Rightarrow> n) in
          if feed_name = [] then (None, s)
          else
            (case requests_get env (feed_url env feed_name) of
               Inl e \<Rightarrow>
                 (cache_get s feed_key, print (''Error fetching Adafruit data: '' @ message e) s)
             | Inr resp \<Rightarrow>
                 if status_code resp = 200 then
                   (case json_value resp of
                      Inl e \<Rightarrow>
                        (cache_get s feed_key,
                         print (''Error fetching Adafruit data: '' @ message e) s)
                    | Inr v \<Rightarrow>
                        (v, s\<lparr>adafruit_cache := (adafruit_cache s)(feed_key \<mapsto> v),
                               adafruit_cache_time := (adafruit_cache_time s)(feed_key \<mapsto> now)\<rparr>))
                 else if status_code resp = 429 then (cache_get s feed_key, s)
                 else (None, s)))"

text \<open>The six polls that open \<open>api_live_data\<close>, in the order of the source.\<close>

definition poll_feeds ::
  "live_env \<Rightarrow> live_state \<Rightarrow>
     (string option \<times> string option \<times> string option \<times> string option \<times> string option
        \<times> string option) \<times> live_state" where
  "poll_feeds env s =
     (let (v_ultrasonic, s1) = get_adafruit_data env ''ultrasonic_cm'' s;
          (v_left, s2) = get_adafruit_data env ''ir_left'' s1;
          (v_center, s3) = get_adafruit_data env ''ir_center'' s2;
          (v_right, s4) = get_adafruit_data env ''ir_right'' s3;
          (v_line, s5) = get_adafruit_data env ''line_state'' s4;
          (v_camera, s6) = get_adafruit_data env ''camera_motion'' s5
      in ((v_ultrasonic, v_left, v_center, v_right, v_line, v_camera), s6))"

text \<open>\<open>float(v) if v else None\<close> and \<open>int(v) if v else None\<close>\<close>

definition float_or_none :: "live_env \<Rightarrow> string option \<Rightarrow> error + pyfloat option" where
  "float_or_none env v =
     (case v of
        None \<Rightarrow> Inr None
      | Some t \<Rightarrow>
          if t = [] then Inr None
          else (case float_of env t of Inl e \<Rightarrow> Inl e | Inr x \<Rightarrow> Inr (Some x)))"

definition int_or_none :: "live_env \<Rightarrow> string option \<Rightarrow> error + int option" where
  "int_or_none env v =
     (case v of
        None \<Rightarrow> Inr None
      | Some t \<Rightarrow>
          if t = [] then Inr None
          else (case int_of env t of Inl e \<Rightarrow> Inl e | Inr i \<Rightarrow> Inr (Some i)))"

text \<open>
  The body of the inner \<open>try\<close>: the arguments are converted from left to right, then
  \<open>save_to_local_db\<close> is called; the first exception ends it.
\<close>

definition save_sample ::
  "live_env \<Rightarrow> string \<Rightarrow> string option \<Rightarrow> string option \<Rightarrow> string option \<Rightarrow> string option
     \<Rightarrow> string option \<Rightarrow> sensor_row list \<Rightarrow> error + sensor_row list" where
  "save_sample env ts v_ultrasonic v_left v_center v_right v_line rows =
     (case float_or_none env v_ultrasonic of
        Inl e \<Rightarrow> Inl e
      | Inr u \<Rightarrow>
     (case int_or_none env v_left of
        Inl e \<Rightarrow> Inl e
      | Inr l \<Rightarrow>
     (case int_or_none env v_center of
        Inl e \<Rightarrow> Inl e
      | Inr c \<Rightarrow>
     (case int_or_none env v_right of
        Inl e \<Rightarrow> Inl e
      | Inr r \<Rightarrow>
          save_to_local_db env
            (ts, u, l, c, r, if truthy v_line then v_line else None) rows))))"

text \<open>
  The endpoint. Nothing before or after the inner \<open>try\<close> raises in this model, so the
  outer handler (status 500) has no branch.
\<close>

definition api_live_data :: "live_env \<Rightarrow> live_state \<Rightarrow> response \<times> live_state" where
  "api_live_data env s =
     (let ((v_ultrasonic, v_left, v_center, v_right, v_line, v_camera), s1) = poll_feeds env s;
          ts = datetime_now env;
          s2 = (case save_sample env ts v_ultrasonic v_left v_center v_right v_line
                       (local_rows s1) of
                  Inr rows \<Rightarrow> s1\<lparr>local_rows := rows\<rparr>
                | Inl e \<Rightarrow> print (''Warning: Could not save to local DB: '' @ message e) s1)
      in (Response
            [(''ultrasonic_cm'', json_of_str v_ultrasonic),
             (''ir_left'', json_of_str v_left),
             (''ir_center'', json_of_str v_center),
             (''ir_right'', json_of_str v_right),
             (''line_state'', json_of_str v_line),
             (''camera_motion'', json_of_str v_camera),
             (''timestamp'', JString ts)] 200,
          s2))"

subsection \<open>The sync worker\<close>

text \<open>
  Modelled from the spec: the SyncStatus record (last attempt, its success, the reason of a
  failure); the code that would write \<open>SYNC_STATUS_FILE\<close> is not in \<open>app.py\<close>.
\<close>

record sync_status =
  attempted :: bool
  success :: bool
  reason :: string

text \<open>What the worker and the ingestion path share: the two tables and the status file
  (\<open>None\<close>: never written).\<close>

record sync_state =
  local_table :: "sensor_row list"
  cloud_table :: "sensor_row list"
  status_file :: "sync_status option"

text \<open>The calls an iteration of \<open>sync_loop\<close> makes.\<close>

datatype call = Check_internet | Sync_to_cloud | Sleep nat

text \<open>
  One iteration of \<open>while True\<close>: \<open>if check_internet(): sync_to_cloud()\<close>, then
  \<open>time.sleep(300)\<close>. The answer \<open>reachable\<close> of \<open>check_internet()\<close> and the function
  \<open>sync_to_cloud\<close> are parameters: both are defined in \<open>database_sync\<close>, which is not
  among the sources. \<open>sync_to_cloud\<close> gives the state it leaves and the exception it raised,
  if any; an exception ends the loop before the sleep.

  Modelled from the spec: \<open>check_internet\<close> is a probe that answers with a boolean, does
  not raise and changes nothing.
\<close>

definition sync_tick ::
  "(sync_state \<Rightarrow> sync_state \<times> error option) \<Rightarrow> bool \<Rightarrow> sync_state
     \<Rightarrow> sync_state \<times> error option \<times> call list" where
  "sync_tick sync_to_cloud reachable s =
     (if reachable then
        (case sync_to_cloud s of
           (s', Some e) \<Rightarrow> (s', Some e, [Check_internet, Sync_to_cloud])
         | (s', None) \<Rightarrow> (s', None, [Check_internet, Sync_to_cloud, Sleep 300]))
      else (s, None, [Check_internet, Sleep 300]))"

text \<open>
  The loop never returns by itself; \<open>sync_loop\<close> runs the iterations for which the list
  holds the answers of \<open>check_internet()\<close>, and stops early when \<open>sync_to_cloud\<close> raises.
\<close>

fun sync_loop ::
  "(sync_state \<Rightarrow> sync_state \<times> error option) \<Rightarrow> bool list \<Rightarrow> sync_state
     \<Rightarrow> sync_state \<times> error option \<times> call list" where
  "sync_loop sync_to_cloud [] s = (s, None, [])"
| "sync_loop sync_to_cloud (reachable # later) s =
     (case sync_tick sync_to_cloud reachable s of
        (s', Some e, calls) \<Rightarrow> (s', Some e, calls)
      | (s', None, calls) \<Rightarrow>
          (case sync_loop sync_to_cloud later s' of
             (s'', raised, later_calls) \<Rightarrow> (s'', raised, calls @ later_calls)))"

text \<open>
  The worker thread beside the request threads: a schedule interleaves iterations of the
  loop (\<open>Tick\<close>, with the answer of the prober) with inserts of the ingestion path
  (\<open>Insert\<close>; the effect of \<open>save_to_local_db\<close> on the state is the parameter \<open>save\<close>).
\<close>

datatype step = Tick bool | Insert history_record

record system =
  store :: sync_state
  worker_raised :: "error option"
  calls_made :: "call list"

fun run ::
  "(sync_state \<Rightarrow> sync_state \<times> error option) \<Rightarrow> (history_record \<Rightarrow> sync_state \<Rightarrow> sync_state)
     \<Rightarrow> step list \<Rightarrow> system \<Rightarrow> system" where
  "run sync_to_cloud save [] sys = sys"
| "run sync_to_cloud save (Tick reachable # rest) sys =
     (case worker_raised sys of
        Some e \<Rightarrow> run sync_to_cloud save rest sys
      | None \<Rightarrow>
          (case sync_tick sync_to_cloud reachable (store sys) of
             (s', raised, calls) \<Rightarrow>
               run sync_to_cloud save rest
                 (sys\<lparr>store := s', worker_raised := raised,
                      calls_made := calls_made sys @ calls\<rparr>)))"
| "run sync_to_cloud save (Insert sample # rest) sys =
     run sync_to_cloud save rest (sys\<lparr>store := save sample (store sys)\<rparr>)"

text \<open>The samples a schedule inserts, in order.\<close>

fun inserted :: "step list \<Rightarrow> history_record list" where
  "inserted [] = []"
| "inserted (Tick reachable # rest) = inserted rest"
| "inserted (Insert sample # rest) = sample # inserted rest"

text \<open>The prober answers "unreachable" at every iteration of a schedule.\<close>

fun always_unreachable :: "step list \<Rightarrow> bool" where
  "always_unreachable [] = True"
| "always_unreachable (Tick reachable # rest) = (\<not> reachable \<and> always_unreachable rest)"
| "always_unreachable (Insert sample # rest) = always_unreachable rest"

subsection \<open>The remote write\<close>

text \<open>
  Modelled from the spec: \<open>writeBatch\<close>, the remote write of \<open>sync_to_cloud\<close>, is defined in
  \<open>database_sync\<close>, which is not among the sources. By the spec it is an upsert keyed on
  \<open>timestamp\<close>: a sample replaces the remote row that has its timestamp, and is appended
  when there is none.
\<close>

fun upsert :: "sensor_row \<Rightarrow> sensor_row list \<Rightarrow> sensor_row list" where
  "upsert sample [] = [sample]"
| "upsert sample (r # rs) =
     (if timestamp r = timestamp sample then sample # rs else r # upsert sample rs)"

text \<open>Modelled from the spec: \<open>writeBatch\<close> upserts the samples of the batch one after the
  other, in the order of the batch.\<close>

definition writeBatch :: "sensor_row list \<Rightarrow> sensor_row list \<Rightarrow> sensor_row list" where
  "writeBatch samples remote = fold upsert samples remote"

text \<open>\<open>n\<close> calls of \<open>writeBatch\<close> with the same samples.\<close>

fun replay :: "nat \<Rightarrow> sensor_row list \<Rightarrow> sensor_row list \<Rightarrow> sensor_row list" where
  "replay 0 samples remote = remote"
| "replay (Suc n) samples remote = replay n samples (writeBatch samples remote)"

text \<open>
  What an upsert does to a row of a table that already holds the sample's timestamp: the
  row with that timestamp becomes the sample, every other row stays.
\<close>

definition overwrite :: "sensor_row \<Rightarrow> sensor_row \<Rightarrow> sensor_row" where
  "overwrite s r = (if timestamp r = timestamp s then s else r)"

subsection \<open>Sample inputs\<close>

text \<open>
  A date function for the examples. It reads a calendar date \<open>YYYY-MM-DD\<close> with a month
  from 01 to 12 and a day from 01 to 28, alone or followed by \<open>T\<close> or a space and a time
  \<open>HH:MM:SS\<close>, and gives the date; every other text is NULL. On the texts it reads, this
  is what \<open>date\<close> of SQLite and of PostgreSQL give. The engines read more texts than these
  (the days 29 to 31, fractions of a second, UTC offsets); the examples use none of them.
\<close>

definition digit :: "char \<Rightarrow> bool" where
  "digit c \<longleftrightarrow> c \<in> set ''0123456789''"

fun iso_day :: "string \<Rightarrow> bool" where
  "iso_day [y1, y2, y3, y4, dash1, m1, m2, dash2, d1, d2] =
     (digit y1 \<and> digit y2 \<and> digit y3 \<and> digit y4
      \<and> dash1 = CHR ''-'' \<and> dash2 = CHR ''-''
      \<and> [m1, m2] \<in> set [''01'', ''02'', ''03'', ''04'', ''05'', ''06'',
                         ''07'', ''08'', ''09'', ''10'', ''11'', ''12'']
      \<and> [d1, d2] \<noteq> ''00''
      \<and> ((d1 \<in> set ''01'' \<and> digit d2) \<or> (d1 = CHR ''2'' \<and> d2 \<in> set ''012345678'')))"
| "iso_day s = False"

fun iso_clock :: "string \<Rightarrow> bool" where
  "iso_clock [h1, h2, colon1, m1, m2, colon2, s1, s2] =
     (((h1 \<in> set ''01'' \<and> digit h2) \<or> (h1 = CHR ''2'' \<and> h2 \<in> set ''0123''))
      \<and> colon1 = CHR '':'' \<and> colon2 = CHR '':''
      \<and> m1 \<in> set ''012345'' \<and> digit m2
      \<and> s1 \<in> set ''012345'' \<and> digit s2)"
| "iso_clock s = False"

definition iso_date :: "string \<Rightarrow> string option" where
  "iso_date s =
     (if iso_day s then Some s
      else if iso_day (take 10 s) \<and> take 1 (drop 10 s) \<in> set [''T'', '' '']
              \<and> iso_clock (drop 11 s)
      then Some (take 10 s)
      else None)"

definition row_a :: sensor_row where
  "row_a = \<lparr>row_id = 1, timestamp = ''2024-05-02T08:00:00'', ultrasonic_cm = Some 12.5,
     ir_left = Some 0, ir_center = Some 1, ir_right = Some 0,
     line_state = Some ''center'', synced = False\<rparr>"

definition row_b :: sensor_row where
  "row_b = \<lparr>row_id = 2, timestamp = ''2024-05-01T09:30:00'', ultrasonic_cm = None,
     ir_left = None, ir_center = None, ir_right = None,
     line_state = None, synced = False\<rparr>"

definition healthy_db :: "sensor_row list \<Rightarrow> database" where
  "healthy_db rows = \<lparr>db_rows = rows, db_date = iso_date, db_fault = (\<lambda>d. None)\<rparr>"

definition broken_db :: "sensor_row list \<Rightarrow> database" where
  "broken_db rows =
     \<lparr>db_rows = rows, db_date = iso_date,
      db_fault = (\<lambda>d. Some (Exception ''connection reset''))\<rparr>"

definition offline_world :: world where
  "offline_world =
     \<lparr>environ = Map.empty,
      get_cloud_connection = (None, ''DATABASE_URL not set''),
      LOCAL_DB = healthy_db [row_a, row_b]\<rparr>"

definition unreachable_world :: world where
  "unreachable_world =
     \<lparr>environ = [''DATABASE_URL'' \<mapsto> ''postgres://neon/robot''],
      get_cloud_connection = (None, ''could not connect to server''),
      LOCAL_DB = healthy_db [row_a, row_b]\<rparr>"

definition cloud_world :: "database \<Rightarrow> database \<Rightarrow> world" where
  "cloud_world conn loc =
     \<lparr>environ = [''DATABASE_URL'' \<mapsto> ''postgres://neon/robot''],
      get_cloud_connection = (Some conn, []),
      LOCAL_DB = loc\<rparr>"

text \<open>A state of the tables before any sync, a \<open>sync_to_cloud\<close> that pushes every local
  row and marks it, and a \<open>save_to_local_db\<close> that appends the sample as an unsynced row.\<close>

definition idle_state :: sync_state where
  "idle_state = \<lparr>local_table = [row_a, row_b], cloud_table = [], status_file = None\<rparr>"

definition push_all :: "sync_state \<Rightarrow> sync_state \<times> error option" where
  "push_all s =
     (s\<lparr>cloud_table := writeBatch (local_table s) (cloud_table s),
        local_table := map (\<lambda>r. r\<lparr>synced := True\<rparr>) (local_table s),
        status_file := Some \<lparr>attempted = True, success = True, reason = []\<rparr>\<rparr>, None)"

definition append_sample :: "history_record \<Rightarrow> sync_state \<Rightarrow> sync_state" where
  "append_sample sample s =
     (case sample of (ts, u, l, c, r, ls) \<Rightarrow>
        s\<lparr>local_table := local_table s @
            [\<lparr>row_id = Suc (length (local_table s)), timestamp = ts, ultrasonic_cm = u,
              ir_left = l, ir_center = c, ir_right = r, line_state = ls, synced = False\<rparr>]\<rparr>)"

text \<open>A second reading at the timestamp of \<open>row_a\<close>.\<close>

definition row_a2 :: sensor_row where
  "row_a2 = row_a\<lparr>ultrasonic_cm := Some 20\<rparr>"

text \<open>A feed service that answers two feeds and times out on the others, and a request
  whose local write fails.\<close>

definition answers :: "string \<Rightarrow> error + http_response" where
  "answers url =
     (if url = ''https://io.adafruit.com/api/v2/robot/feeds/distance/data/last''
      then Inr \<lparr>status_code = 200, json_value = Inr (Some ''12.5'')\<rparr>
      else if url = ''https://io.adafruit.com/api/v2/robot/feeds/line/data/last''
      then Inr \<lparr>status_code = 200, json_value = Inr (Some ''center'')\<rparr>
      else Inl (Exception ''timeout''))"

definition full_disk :: live_env where
  "full_disk =
     \<lparr>AIO_USERNAME = ''robot'', AIO_KEY = ''secret'',
      AIO_FEEDS = [''ultrasonic_cm'' \<mapsto> ''distance'', ''line_state'' \<mapsto> ''line'',
                   ''ir_left'' \<mapsto> ''left''],
      requests_get = answers,
      time_time = (\<lambda>k. 1000),
      datetime_now = ''2024-05-03T12:00:00'',
      float_of = (\<lambda>t. if t = ''12.5'' then Inr (Finite 12.5)
                        else Inl (Exception ''could not convert string to float'')),
      int_of = (\<lambda>t. Inl (Exception ''invalid literal for int()'')),
      save_to_local_db = (\<lambda>sample rows. Inl (Exception ''database or disk is full''))\<rparr>"

definition fresh_state :: live_state where
  "fresh_state = \<lparr>adafruit_cache = Map.empty, adafruit_cache_time = Map.empty,
     local_rows = [row_b], stdout = []\<rparr>"


section \<open>Properties\<close>

lemmas history_defs =
  get_historical_data_def CLOUD_DB_URL_def local_history_def execute_fetchall_def
  select_history_def six_fields_def on_date_def cloud_read_fails_def

lemmas sample_defs =
  iso_date_def digit_def offline_world_def unreachable_world_def cloud_world_def healthy_db_def
  broken_db_def row_a_def row_b_def

subsection \<open>Reading history\<close>

lemma fst_six_fields: "fst \<circ> six_fields = timestamp"
  by (simp add: fun_eq_iff six_fields_def)

lemma sorted_select_history: "sorted (map fst (select_history db d))"
  by (simp add: select_history_def fst_six_fields)

lemma select_history_rows: "set (select_history db d) \<subseteq> six_fields ` set (db_rows db)"
  by (auto simp: select_history_def split: option.splits if_splits)

lemma on_date_date_portion:
  assumes "db_date db d = Some d"
    and "list_all (\<lambda>r. db_date db (timestamp r) = Some (date_portion (timestamp r))) (db_rows db)"
  shows "filter (on_date db d) (db_rows db)
       = filter (\<lambda>r. date_portion (timestamp r) = d) (db_rows db)"
proof (rule filter_cong)
  show "db_rows db = db_rows db" by simp
next
  fix r
  assume "r \<in> set (db_rows db)"
  with assms(2) have "db_date db (timestamp r) = Some (date_portion (timestamp r))"
    by (simp add: list_all_iff)
  with assms(1) show "on_date db d r = (date_portion (timestamp r) = d)"
    by (simp add: on_date_def)
qed

lemma select_history_contract:
  assumes "reads_dates db d"
  shows "history_contract (db_rows db) d (select_history db d)"
proof (cases d)
  case None
  then show ?thesis
    by (simp add: history_contract_def select_history_def fst_six_fields)
next
  case (Some f)
  show ?thesis
  proof (cases "f = []")
    case True
    with Some show ?thesis
      by (simp add: history_contract_def select_history_def fst_six_fields)
  next
    case False
    with Some assms have "filter (on_date db f) (db_rows db)
        = filter (\<lambda>r. date_portion (timestamp r) = f) (db_rows db)"
      by (intro on_date_date_portion) (simp_all add: reads_dates_def)
    with Some False show ?thesis
      by (simp add: history_contract_def select_history_def fst_six_fields)
  qed
qed

text \<open>
  C1. Whatever the date filter, when the cloud read path fails (no connection, or the cloud
  query raises) \<open>get_historical_data\<close> returns a list, not an exception, and that list is
  the result of the Local Store's query for the same filter.
\<close>

theorem cloud_failure_falls_back_to_local:
  assumes "cloud_read_fails w d"
  shows "(\<exists>records. fst (get_historical_data w d) = Inr records)
     \<and> (\<forall>records. execute_fetchall (LOCAL_DB w) d = Inr records
            \<longrightarrow> fst (get_historical_data w d) = Inr records)"
  using assms
  by (cases "get_cloud_connection w")
     (auto simp: get_historical_data_def cloud_read_fails_def local_history_def
        split: option.splits sum.splits)

theorem cloud_failure_falls_back_to_local_witness:
  "cloud_read_fails unreachable_world (Some ''2024-05-02'')
   \<and> execute_fetchall (LOCAL_DB unreachable_world) (Some ''2024-05-02'') = Inr [six_fields row_a]
   \<and> fst (get_historical_data unreachable_world (Some ''2024-05-02'')) = Inr [six_fields row_a]"
proof -
  have fails: "cloud_read_fails unreachable_world (Some ''2024-05-02'')"
    by (simp add: cloud_read_fails_def unreachable_world_def)
  have loc: "execute_fetchall (LOCAL_DB unreachable_world) (Some ''2024-05-02'')
      = Inr [six_fields row_a]"
    by (simp add: history_defs sample_defs)
  from cloud_failure_falls_back_to_local [OF fails] loc
  have "fst (get_historical_data unreachable_world (Some ''2024-05-02'')) = Inr [six_fields row_a]"
    by blast
  with fails loc show ?thesis by blast
qed

text \<open>
  C3, as the code has it. On the cloud path (a connection, and the query does not raise) and
  on the local path (no cloud URL or a failed cloud read, and the local query does not
  raise) the records returned are six-field tuples of rows of the table, ordered by
  timestamp ascending; they satisfy \<open>history_contract\<close>: every row when the filter is
  omitted or empty, and, when the filter is a calendar date that the engine reads as
  itself over timestamps whose date the engine reads as their date portion, exactly the
  rows whose timestamp's date portion equals the filter.
\<close>

theorem history_query_contract:
  "(CLOUD_DB_URL w \<noteq> [] \<and> get_cloud_connection w = (Some conn, err) \<and> db_fault conn d = None
      \<longrightarrow> (\<exists>records. fst (get_historical_data w d) = Inr records
             \<and> sorted (map fst records)
             \<and> set records \<subseteq> six_fields ` set (db_rows conn)
             \<and> (reads_dates conn d \<longrightarrow> history_contract (db_rows conn) d records)))
   \<and> ((CLOUD_DB_URL w = [] \<or> cloud_read_fails w d) \<and> db_fault (LOCAL_DB w) d = None
      \<longrightarrow> (\<exists>records. fst (get_historical_data w d) = Inr records
             \<and> sorted (map fst records)
             \<and> set records \<subseteq> six_fields ` set (db_rows (LOCAL_DB w))
             \<and> (reads_dates (LOCAL_DB w) d
                  \<longrightarrow> history_contract (db_rows (LOCAL_DB w)) d records)))"
proof (intro conjI impI)
  assume cloud: "CLOUD_DB_URL w \<noteq> [] \<and> get_cloud_connection w = (Some conn, err)
      \<and> db_fault conn d = None"
  then have "fst (get_historical_data w d) = Inr (select_history conn d)"
    by (simp add: get_historical_data_def execute_fetchall_def)
  then show "\<exists>records. fst (get_historical_data w d) = Inr records
      \<and> sorted (map fst records)
      \<and> set records \<subseteq> six_fields ` set (db_rows conn)
      \<and> (reads_dates conn d \<longrightarrow> history_contract (db_rows conn) d records)"
    using sorted_select_history [of conn d] select_history_rows [of conn d]
      select_history_contract [of conn d]
    by blast
next
  assume loc: "(CLOUD_DB_URL w = [] \<or> cloud_read_fails w d) \<and> db_fault (LOCAL_DB w) d = None"
  then have "fst (get_historical_data w d) = Inr (select_history (LOCAL_DB w) d)"
    by (cases "get_cloud_connection w")
       (auto simp: get_historical_data_def cloud_read_fails_def local_history_def
          execute_fetchall_def split: option.splits sum.splits)
  then show "\<exists>records. fst (get_historical_data w d) = Inr records
      \<and> sorted (map fst records)
      \<and> set records \<subseteq> six_fields ` set (db_rows (LOCAL_DB w))
      \<and> (reads_dates (LOCAL_DB w) d \<longrightarrow> history_contract (db_rows (LOCAL_DB w)) d records)"
    using sorted_select_history [of "LOCAL_DB w" d] select_history_rows [of "LOCAL_DB w" d]
      select_history_contract [of "LOCAL_DB w" d]
    by blast
qed

theorem history_query_contract_witness:
  "CLOUD_DB_URL (cloud_world (healthy_db [row_a, row_b]) (healthy_db [])) \<noteq> []
   \<and> reads_dates (healthy_db [row_a, row_b]) (Some ''2024-05-01'')
   \<and> fst (get_historical_data (cloud_world (healthy_db [row_a, row_b]) (healthy_db []))
        (Some ''2024-05-01'')) = Inr [six_fields row_b]
   \<and> history_contract [row_a, row_b] (Some ''2024-05-01'') [six_fields row_b]
   \<and> CLOUD_DB_URL offline_world = []
   \<and> reads_dates (LOCAL_DB offline_world) (Some ''2024-05-02'')
   \<and> fst (get_historical_data offline_world (Some ''2024-05-02'')) = Inr [six_fields row_a]
   \<and> history_contract (db_rows (LOCAL_DB offline_world)) (Some ''2024-05-02'')
        [six_fields row_a]"
proof -
  let ?cloud = "cloud_world (healthy_db [row_a, row_b]) (healthy_db [])"
  have url: "CLOUD_DB_URL ?cloud \<noteq> []"
    by (simp add: CLOUD_DB_URL_def cloud_world_def)
  have conn: "get_cloud_connection ?cloud = (Some (healthy_db [row_a, row_b]), [])"
    by (simp add: cloud_world_def)
  have ok: "db_fault (healthy_db [row_a, row_b]) (Some ''2024-05-01'') = None"
    by (simp add: healthy_db_def)
  have reads: "reads_dates (healthy_db [row_a, row_b]) (Some ''2024-05-01'')"
    by (simp add: reads_dates_def date_portion_def sample_defs)
  have cloud_result: "fst (get_historical_data ?cloud (Some ''2024-05-01''))
      = Inr [six_fields row_b]"
    by (simp add: history_defs sample_defs)
  have no_url: "CLOUD_DB_URL offline_world = []"
    by (simp add: CLOUD_DB_URL_def offline_world_def)
  have local_ok: "db_fault (LOCAL_DB offline_world) (Some ''2024-05-02'') = None"
    by (simp add: offline_world_def healthy_db_def)
  have local_reads: "reads_dates (LOCAL_DB offline_world) (Some ''2024-05-02'')"
    by (simp add: reads_dates_def date_portion_def sample_defs)
  have local_result: "fst (get_historical_data offline_world (Some ''2024-05-02''))
      = Inr [six_fields row_a]"
    by (simp add: history_defs sample_defs)
  have rows: "db_rows (healthy_db [row_a, row_b]) = [row_a, row_b]"
    by (simp add: healthy_db_def)
  from history_query_contract [of ?cloud "healthy_db [row_a, row_b]" "[]" "Some ''2024-05-01''"]
    url conn ok reads cloud_result rows
  have first: "history_contract [row_a, row_b] (Some ''2024-05-01'') [six_fields row_b]"
    by auto
  from history_query_contract [of offline_world "healthy_db []" "[]" "Some ''2024-05-02''"]
    no_url local_ok local_reads local_result
  have second: "history_contract (db_rows (LOCAL_DB offline_world)) (Some ''2024-05-02'')
      [six_fields row_a]"
    by auto
  from url reads cloud_result first no_url local_reads local_result second
  show ?thesis by blast
qed

text \<open>
  C3, as the claim states it, fails twice. The empty filter \<open>date_str = ""\<close> is a filter
  that was given, yet the branch \<open>if date_str:\<close> is not taken and every row is returned,
  whatever its date portion. And a filter that is a full timestamp selects the rows of its
  day, whose date portion is not the filter: the WHERE clause compares the date of the
  timestamp with the date of the filter.
\<close>

theorem date_filter_not_compared_as_given:
  "fst (get_historical_data offline_world (Some [])) = Inr [six_fields row_b, six_fields row_a]
   \<and> date_portion (timestamp row_a) = ''2024-05-02''
   \<and> date_portion (timestamp row_b) = ''2024-05-01''
   \<and> fst (get_historical_data offline_world (Some ''2024-05-02T23:00:00''))
       = Inr [six_fields row_a]
   \<and> date_portion (timestamp row_a) \<noteq> ''2024-05-02T23:00:00''"
  by (simp add: history_defs sample_defs date_portion_def)

text \<open>
  C7. Without \<open>DATABASE_URL\<close> in the environment, \<open>get_historical_data\<close> neither connects
  to the cloud nor queries it, and returns what the Local Store's query returns (the empty
  list when that query raises).
\<close>

theorem local_only_without_database_url:
  assumes "environ w ''DATABASE_URL'' = None"
  shows "CloudConnect \<notin> set (snd (get_historical_data w d))
     \<and> (\<forall>q. CloudQuery q \<notin> set (snd (get_historical_data w d)))
     \<and> fst (get_historical_data w d) =
         Inr (case execute_fetchall (LOCAL_DB w) d of Inr records \<Rightarrow> records | Inl e \<Rightarrow> [])"
  using assms
  by (simp add: get_historical_data_def CLOUD_DB_URL_def local_history_def split: sum.splits)

theorem local_only_without_database_url_witness:
  "environ offline_world ''DATABASE_URL'' = None
   \<and> snd (get_historical_data offline_world (Some ''2024-05-01'')) = [LocalQuery (Some ''2024-05-01'')]
   \<and> fst (get_historical_data offline_world (Some ''2024-05-01'')) = Inr [six_fields row_b]"
proof -
  have absent: "environ offline_world ''DATABASE_URL'' = None"
    by (simp add: offline_world_def)
  from local_only_without_database_url [OF absent, of "Some ''2024-05-01''"]
  show ?thesis using absent by (simp add: history_defs sample_defs)
qed

text \<open>
  C8. With a cloud URL, a connection and a cloud query that succeeds with no rows,
  \<open>get_historical_data\<close> returns the empty list after connecting, querying and closing the
  cloud connection only: the Local Store is not queried.
\<close>

theorem empty_cloud_result_is_returned:
  assumes "CLOUD_DB_URL w \<noteq> []"
    and "get_cloud_connection w = (Some conn, err)"
    and "execute_fetchall conn d = Inr []"
  shows "get_historical_data w d = (Inr [], [CloudConnect, CloudQuery d, CloudClose])
     \<and> LocalQuery d \<notin> set (snd (get_historical_data w d))"
  using assms by (simp add: get_historical_data_def)

theorem empty_cloud_result_is_returned_witness:
  "CLOUD_DB_URL (cloud_world (healthy_db []) (healthy_db [row_a])) \<noteq> []
   \<and> execute_fetchall (healthy_db []) None = Inr []
   \<and> execute_fetchall (LOCAL_DB (cloud_world (healthy_db []) (healthy_db [row_a]))) None
       = Inr [six_fields row_a]
   \<and> get_historical_data (cloud_world (healthy_db []) (healthy_db [row_a])) None
       = (Inr [], [CloudConnect, CloudQuery None, CloudClose])"
proof -
  let ?w = "cloud_world (healthy_db []) (healthy_db [row_a])"
  have url: "CLOUD_DB_URL ?w \<noteq> []"
    by (simp add: CLOUD_DB_URL_def cloud_world_def)
  have conn: "get_cloud_connection ?w = (Some (healthy_db []), [])"
    by (simp add: cloud_world_def)
  have none: "execute_fetchall (healthy_db []) None = Inr []"
    by (simp add: history_defs sample_defs)
  have loc: "execute_fetchall (LOCAL_DB ?w) None = Inr [six_fields row_a]"
    by (simp add: history_defs sample_defs)
  from empty_cloud_result_is_returned [OF url conn none] url none loc
  show ?thesis by blast
qed

text \<open>
  C9. \<open>get_historical_data\<close> returns a list for every input; when the cloud read path
  fails and the Local Store's query raises as well, the list is empty.
\<close>

theorem get_historical_data_never_raises:
  "(\<exists>records. fst (get_historical_data w d) = Inr records)
   \<and> (cloud_read_fails w d \<and> (\<exists>e. execute_fetchall (LOCAL_DB w) d = Inl e)
        \<longrightarrow> fst (get_historical_data w d) = Inr [])"
  by (cases "get_cloud_connection w")
     (auto simp: get_historical_data_def cloud_read_fails_def local_history_def
        split: option.splits sum.splits)

theorem get_historical_data_never_raises_witness:
  "cloud_read_fails (cloud_world (broken_db [row_b]) (broken_db [row_a])) None
   \<and> execute_fetchall (LOCAL_DB (cloud_world (broken_db [row_b]) (broken_db [row_a]))) None
       = Inl (Exception ''connection reset'')
   \<and> fst (get_historical_data (cloud_world (broken_db [row_b]) (broken_db [row_a])) None) = Inr []"
proof -
  let ?w = "cloud_world (broken_db [row_b]) (broken_db [row_a])"
  have fails: "cloud_read_fails ?w None"
    by (simp add: history_defs sample_defs)
  have loc: "execute_fetchall (LOCAL_DB ?w) None = Inl (Exception ''connection reset'')"
    by (simp add: history_defs sample_defs)
  from get_historical_data_never_raises [of ?w None] fails loc
  show ?thesis by blast
qed

subsection \<open>The historical-data endpoint\<close>

lemmas payload_defs =
  api_historical_data_def request_date_def historical_payload_def json_of_real_def
  json_of_int_def line_state_text_def truthy_def

lemma line_state_text_cases:
  "line_state_text v = (case v of None \<Rightarrow> [] | Some t \<Rightarrow> t)"
  by (simp add: line_state_text_def truthy_def split: option.splits)

text \<open>
  C10. A request with a JSON object answers with status 200 and six arrays that hold, for
  the i-th record of \<open>get_historical_data\<close>, its timestamp, its numeric fields with
  \<open>null\<close> for a missing value, and its line state with the empty string for a missing one.
\<close>

theorem historical_payload_nulls:
  assumes "request_json = Inr body" and "body \<noteq> []"
    and "fst (get_historical_data w (request_date body)) = Inr records"
  shows "\<exists>ts us ls cs rs ss.
       fst (api_historical_data w request_json) =
         Response [(''timestamps'', JArray ts), (''ultrasonic'', JArray us),
                   (''ir_left'', JArray ls), (''ir_center'', JArray cs),
                   (''ir_right'', JArray rs), (''line_state'', JArray ss)] 200
     \<and> length ts = length records \<and> length us = length records \<and> length ls = length records
     \<and> length cs = length records \<and> length rs = length records \<and> length ss = length records
     \<and> (\<forall>i < length records.
          case records ! i of (t, u, l, c, r, s) \<Rightarrow>
            ts ! i = JString t
          \<and> us ! i = (case u of None \<Rightarrow> JNull | Some x \<Rightarrow> JReal x)
          \<and> ls ! i = (case l of None \<Rightarrow> JNull | Some x \<Rightarrow> JInt x)
          \<and> cs ! i = (case c of None \<Rightarrow> JNull | Some x \<Rightarrow> JInt x)
          \<and> rs ! i = (case r of None \<Rightarrow> JNull | Some x \<Rightarrow> JInt x)
          \<and> ss ! i = (case s of None \<Rightarrow> JString [] | Some x \<Rightarrow> JString x))"
proof -
  obtain effs where "get_historical_data w (request_date body) = (Inr records, effs)"
    using assms(3) by (cases "get_historical_data w (request_date body)") simp
  then have "fst (api_historical_data w request_json) = Response (historical_payload records) 200"
    using assms(1,2) by (simp add: api_historical_data_def)
  then show ?thesis
    by (auto simp: historical_payload_def json_of_real_def json_of_int_def
        line_state_text_cases split: prod.splits option.splits)
qed

theorem historical_payload_nulls_witness:
  "fst (get_historical_data offline_world (request_date [(''date'', None)]))
     = Inr [six_fields row_b, six_fields row_a]
   \<and> fst (api_historical_data offline_world (Inr [(''date'', None)])) =
       Response [(''timestamps'', JArray [JString ''2024-05-01T09:30:00'', JString ''2024-05-02T08:00:00'']),
                 (''ultrasonic'', JArray [JNull, JReal 12.5]),
                 (''ir_left'', JArray [JNull, JInt 0]),
                 (''ir_center'', JArray [JNull, JInt 1]),
                 (''ir_right'', JArray [JNull, JInt 0]),
                 (''line_state'', JArray [JString [], JString ''center''])] 200"
  using historical_payload_nulls [of "Inr [(''date'', None)]" "[(''date'', None)]" offline_world
      "[six_fields row_b, six_fields row_a]"]
  by (simp add: payload_defs history_defs sample_defs)

subsection \<open>The live-data endpoint\<close>

lemmas live_defs =
  poll_feeds_def get_adafruit_data_def cache_fresh_def cache_get_def feed_url_def
  print_def message_def save_sample_def float_or_none_def int_or_none_def truthy_def
  json_of_str_def ADAFRUIT_CACHE_TTL_def

text \<open>
  C6. Whatever \<open>save_to_local_db\<close> and the conversions before it do, \<open>api_live_data\<close>
  answers with status 200 and the values it polled; when the inner \<open>try\<close> raises, the
  warning with the exception's text is printed and nothing else changes.
\<close>

theorem live_data_survives_save_failure:
  assumes "poll_feeds env s = ((v_ultrasonic, v_left, v_center, v_right, v_line, v_camera), s1)"
  shows "fst (api_live_data env s) =
       Response
         [(''ultrasonic_cm'', json_of_str v_ultrasonic),
          (''ir_left'', json_of_str v_left),
          (''ir_center'', json_of_str v_center),
          (''ir_right'', json_of_str v_right),
          (''line_state'', json_of_str v_line),
          (''camera_motion'', json_of_str v_camera),
          (''timestamp'', JString (datetime_now env))] 200
     \<and> (\<forall>e. save_sample env (datetime_now env) v_ultrasonic v_left v_center v_right v_line
              (local_rows s1) = Inl e
          \<longrightarrow> snd (api_live_data env s)
              = s1\<lparr>stdout := stdout s1 @ [''Warning: Could not save to local DB: '' @ message e]\<rparr>)"
  using assms by (simp add: api_live_data_def print_def Let_def)

theorem live_data_survives_save_failure_witness:
  "fst (poll_feeds full_disk fresh_state) = (Some ''12.5'', None, None, None, Some ''center'', None)
   \<and> save_sample full_disk ''2024-05-03T12:00:00'' (Some ''12.5'') None None None (Some ''center'')
        (local_rows (snd (poll_feeds full_disk fresh_state)))
       = Inl (Exception ''database or disk is full'')
   \<and> fst (api_live_data full_disk fresh_state) =
       Response
         [(''ultrasonic_cm'', JString ''12.5''), (''ir_left'', JNull), (''ir_center'', JNull),
          (''ir_right'', JNull), (''line_state'', JString ''center''), (''camera_motion'', JNull),
          (''timestamp'', JString ''2024-05-03T12:00:00'')] 200
   \<and> stdout (snd (api_live_data full_disk fresh_state)) =
       [''Error fetching Adafruit data: timeout'',
        ''Warning: Could not save to local DB: database or disk is full'']
   \<and> local_rows (snd (api_live_data full_disk fresh_state)) = [row_b]"
proof -
  have polled: "poll_feeds full_disk fresh_state =
      ((Some ''12.5'', None, None, None, Some ''center'', None),
       snd (poll_feeds full_disk fresh_state))"
    by (simp add: live_defs full_disk_def fresh_state_def answers_def Let_def)
  have full: "save_sample full_disk (datetime_now full_disk) (Some ''12.5'') None None None
      (Some ''center'') (local_rows (snd (poll_feeds full_disk fresh_state)))
      = Inl (Exception ''database or disk is full'')"
    by (simp add: live_defs full_disk_def)
  have out: "stdout (snd (poll_feeds full_disk fresh_state)) = [''Error fetching Adafruit data: timeout'']"
    by (simp add: live_defs full_disk_def fresh_state_def answers_def Let_def)
  have rows: "local_rows (snd (poll_feeds full_disk fresh_state)) = [row_b]"
    by (simp add: live_defs full_disk_def fresh_state_def answers_def Let_def)
  have now: "datetime_now full_disk = ''2024-05-03T12:00:00''"
    by (simp add: full_disk_def)
  have readings: "fst (poll_feeds full_disk fresh_state)
      = (Some ''12.5'', None, None, None, Some ''center'', None)"
    by (simp add: live_defs full_disk_def fresh_state_def answers_def Let_def)
  from live_data_survives_save_failure [OF polled] full out rows now readings show ?thesis
    by (simp add: json_of_str_def message_def)
qed

subsection \<open>The sync worker\<close>

lemmas sync_defs = idle_state_def push_all_def append_sample_def sync_tick_def writeBatch_def

lemma sync_tick_unreachable:
  "sync_tick sync_to_cloud False s = (s, None, [Check_internet, Sleep 300])"
  by (simp add: sync_tick_def)

lemma run_offline:
  "always_unreachable steps \<Longrightarrow>
     store (run stc save steps sys) = fold save (inserted steps) (store sys)
     \<and> count_list (calls_made (run stc save steps sys)) Sync_to_cloud
         = count_list (calls_made sys) Sync_to_cloud"
proof (induction steps arbitrary: sys)
  case Nil
  then show ?case by simp
next
  case (Cons st steps)
  show ?case
  proof (cases st)
    case (Tick reachable)
    with Cons.prems have off: "\<not> reachable" "always_unreachable steps" by simp_all
    show ?thesis
    proof (cases "worker_raised sys")
      case None
      with Tick off Cons.IH [OF off(2)] show ?thesis
        by (simp add: sync_tick_unreachable)
    next
      case (Some e)
      with Tick off Cons.IH [OF off(2)] show ?thesis by simp
    qed
  next
    case (Insert sample)
    with Cons.prems have "always_unreachable steps" by simp
    from Cons.IH [OF this] Insert show ?thesis by simp
  qed
qed

lemma sync_loop_offline:
  "\<forall>reachable \<in> set probes. \<not> reachable \<Longrightarrow>
     sync_loop stc probes s = (s, None, concat (map (\<lambda>p. [Check_internet, Sleep 300]) probes))"
  by (induction probes) (auto simp: sync_tick_unreachable)

text \<open>
  C4. When the prober answers "unreachable" at every iteration, \<open>sync_loop\<close> leaves the
  state as it was and never calls \<open>sync_to_cloud\<close>; interleaved with inserts, the state
  is the one the inserts alone produce, and no call of \<open>sync_to_cloud\<close> is added.
\<close>

theorem offline_worker_never_syncs:
  "((\<forall>reachable \<in> set probes. \<not> reachable) \<longrightarrow>
      fst (sync_loop stc probes s) = s
      \<and> Sync_to_cloud \<notin> set (snd (snd (sync_loop stc probes s))))
   \<and> (always_unreachable steps \<longrightarrow>
      store (run stc save steps sys) = fold save (inserted steps) (store sys)
      \<and> count_list (calls_made (run stc save steps sys)) Sync_to_cloud
         = count_list (calls_made sys) Sync_to_cloud)"
  using run_offline [of steps stc save sys] sync_loop_offline [of probes stc s]
  by auto

theorem offline_worker_never_syncs_witness:
  "sync_loop push_all [False, False, False] idle_state
       = (idle_state, None,
          [Check_internet, Sleep 300, Check_internet, Sleep 300, Check_internet, Sleep 300])
   \<and> always_unreachable [Tick False, Insert (six_fields row_a2), Tick False]
   \<and> local_table (store (run push_all append_sample
        [Tick False, Insert (six_fields row_a2), Tick False]
        \<lparr>store = idle_state, worker_raised = None, calls_made = []\<rparr>))
      = [row_a, row_b, row_a2\<lparr>row_id := 3\<rparr>]
   \<and> calls_made (run push_all append_sample
        [Tick False, Insert (six_fields row_a2), Tick False]
        \<lparr>store = idle_state, worker_raised = None, calls_made = []\<rparr>)
      = [Check_internet, Sleep 300, Check_internet, Sleep 300]"
  using offline_worker_never_syncs [of "[False, False, False]" push_all idle_state
      "[Tick False, Insert (six_fields row_a2), Tick False]" append_sample
      "\<lparr>store = idle_state, worker_raised = None, calls_made = []\<rparr>"]
  by (simp add: sync_defs six_fields_def row_a_def row_a2_def row_b_def)

text \<open>
  C5, as the code has it. An iteration in which the prober answers "unreachable" calls
  \<open>check_internet\<close> and \<open>time.sleep(300)\<close> only: \<open>sync_to_cloud\<close> is skipped, and the
  state, with its status file, is what it was; the loop goes on with the next iteration.
\<close>

theorem unreachable_tick_is_skipped:
  "sync_tick stc False s = (s, None, [Check_internet, Sleep 300])
   \<and> sync_loop stc (False # later) s =
       (case sync_loop stc later s of
          (s', raised, calls) \<Rightarrow> (s', raised, [Check_internet, Sleep 300] @ calls))"
  by (simp add: sync_tick_def)

text \<open>
  C5, as the claim states it, fails: after an iteration with an unreachable prober the
  status file is still unwritten; no SyncStatus with \<open>reason = "unreachable"\<close> is recorded.
\<close>

theorem unreachable_tick_records_no_status:
  "status_file (fst (sync_tick push_all False idle_state)) = None
   \<and> status_file (fst (sync_tick push_all False idle_state))
       \<noteq> Some \<lparr>attempted = True, success = False, reason = ''unreachable''\<rparr>
   \<and> status_file (fst (sync_loop push_all [False] idle_state)) = None"
  by (simp add: sync_defs)

subsection \<open>The remote write\<close>

lemma timestamp_head_fresh:
  "distinct (map timestamp (r # rs)) \<Longrightarrow> x \<in> set rs \<Longrightarrow> timestamp x \<noteq> timestamp r"
  by (auto simp: image_iff)

lemma set_upsert: "timestamp ` set (upsert s rs) = insert (timestamp s) (timestamp ` set rs)"
  by (induction rs) auto

lemma in_upsert:
  "distinct (map timestamp rs) \<Longrightarrow> r \<in> set (upsert s rs)
     \<Longrightarrow> r = s \<or> (r \<in> set rs \<and> timestamp r \<noteq> timestamp s)"
proof (induction rs)
  case Nil
  then show ?case by simp
next
  case (Cons a rs)
  show ?case
  proof (cases "timestamp a = timestamp s")
    case True
    with Cons.prems(2) have "r = s \<or> r \<in> set rs" by simp
    with True timestamp_head_fresh [OF Cons.prems(1)] show ?thesis by auto
  next
    case False
    with Cons.prems(2) have "r = a \<or> r \<in> set (upsert s rs)" by simp
    with False Cons.IH Cons.prems(1) show ?thesis by auto
  qed
qed

lemma distinct_upsert:
  "distinct (map timestamp rs) \<Longrightarrow> distinct (map timestamp (upsert s rs))"
proof (induction rs)
  case Nil
  then show ?case by simp
next
  case (Cons r rs)
  have "timestamp r \<notin> timestamp ` set rs" using Cons.prems by simp
  then have "timestamp r \<noteq> timestamp s \<Longrightarrow> timestamp r \<notin> timestamp ` set (upsert s rs)"
    by (simp add: set_upsert)
  then show ?case using Cons by auto
qed

lemma distinct_fold_upsert:
  "distinct (map timestamp rs) \<Longrightarrow> distinct (map timestamp (fold upsert ss rs))"
  by (induction ss arbitrary: rs) (auto simp: distinct_upsert)

lemma set_fold_upsert:
  "timestamp ` set (fold upsert ss rs) = timestamp ` set ss \<union> timestamp ` set rs"
  by (induction ss arbitrary: rs) (auto simp: set_upsert)

lemma overwrite_same: "timestamp r = timestamp s \<Longrightarrow> overwrite s r = s"
  by (simp add: overwrite_def)

lemma overwrite_other: "timestamp r \<noteq> timestamp s \<Longrightarrow> overwrite s r = r"
  by (simp add: overwrite_def)

lemma timestamp_overwrite: "timestamp (overwrite s r) = timestamp r"
  by (simp add: overwrite_def)

lemma timestamp_fold_overwrite: "timestamp (fold overwrite ss r) = timestamp r"
  by (induction ss arbitrary: r) (auto simp: timestamp_overwrite)

lemma upsert_present:
  "distinct (map timestamp rs) \<Longrightarrow> timestamp s \<in> timestamp ` set rs
     \<Longrightarrow> upsert s rs = map (overwrite s) rs"
proof (induction rs)
  case Nil
  then show ?case by simp
next
  case (Cons r rs)
  show ?case
  proof (cases "timestamp r = timestamp s")
    case True
    have "overwrite s x = x" if "x \<in> set rs" for x
      using timestamp_head_fresh [OF Cons.prems(1) that] True by (simp add: overwrite_other)
    then have "map (overwrite s) rs = rs" by (simp add: map_idI)
    with True show ?thesis by (simp add: overwrite_same)
  next
    case False
    then have "timestamp s \<in> timestamp ` set rs" using Cons.prems(2) by auto
    with False Cons show ?thesis by (simp add: overwrite_other)
  qed
qed

lemma fold_upsert_present:
  "distinct (map timestamp rs) \<Longrightarrow> timestamp ` set ss \<subseteq> timestamp ` set rs
     \<Longrightarrow> fold upsert ss rs = map (fold overwrite ss) rs"
proof (induction ss arbitrary: rs)
  case Nil
  then show ?case by simp
next
  case (Cons s ss)
  have u: "upsert s rs = map (overwrite s) rs"
    using Cons.prems by (intro upsert_present) auto
  have d: "distinct (map timestamp (map (overwrite s) rs))"
    using Cons.prems(1) by (simp add: o_def timestamp_overwrite)
  have sub: "timestamp ` set ss \<subseteq> timestamp ` set (map (overwrite s) rs)"
    using Cons.prems(2) by (simp add: image_image timestamp_overwrite)
  show ?case using Cons.IH [OF d sub] u by (simp add: o_def)
qed

lemma fold_overwrite_fixed:
  "distinct (map timestamp rs) \<Longrightarrow> r \<in> set (fold upsert ss rs) \<Longrightarrow> fold overwrite ss r = r"
proof (induction ss arbitrary: r rule: rev_induct)
  case Nil
  then show ?case by simp
next
  case (snoc s ss)
  from snoc.prems have "r \<in> set (upsert s (fold upsert ss rs))" by simp
  then consider "r = s" | "r \<in> set (fold upsert ss rs)" "timestamp r \<noteq> timestamp s"
    using in_upsert [OF distinct_fold_upsert [OF snoc.prems(1)]] by blast
  then show ?case
  proof cases
    case 1
    then show ?thesis by (simp add: overwrite_same timestamp_fold_overwrite)
  next
    case 2
    then show ?thesis
      using snoc.IH [OF snoc.prems(1)] by (simp add: overwrite_other)
  qed
qed

lemma writeBatch_idempotent:
  assumes "distinct (map timestamp remote)"
  shows "writeBatch samples (writeBatch samples remote) = writeBatch samples remote"
proof -
  let ?t = "fold upsert samples remote"
  have d: "distinct (map timestamp ?t)" using assms by (rule distinct_fold_upsert)
  have sub: "timestamp ` set samples \<subseteq> timestamp ` set ?t"
    by (simp add: set_fold_upsert)
  have "fold upsert samples ?t = map (fold overwrite samples) ?t"
    using d sub by (rule fold_upsert_present)
  also have "\<dots> = ?t"
    using fold_overwrite_fixed [OF assms] by (simp add: map_idI)
  finally show ?thesis by (simp add: writeBatch_def)
qed

lemma replay_once:
  assumes "distinct (map timestamp remote)"
  shows "replay (Suc n) samples remote = writeBatch samples remote"
proof (induction n)
  case 0
  then show ?case by simp
next
  case (Suc n)
  have "replay (Suc (Suc n)) samples remote
      = replay n samples (writeBatch samples (writeBatch samples remote))"
    by simp
  also have "\<dots> = replay n samples (writeBatch samples remote)"
    using assms by (simp add: writeBatch_idempotent)
  also have "\<dots> = replay (Suc n) samples remote" by simp
  finally show ?case using Suc by simp
qed

lemma one_row_per_key:
  "distinct (map timestamp rs) \<Longrightarrow> t \<in> timestamp ` set rs
     \<Longrightarrow> length (filter (\<lambda>r. timestamp r = t) rs) = 1"
proof (induction rs)
  case Nil
  then show ?case by simp
next
  case (Cons r rs)
  show ?case
  proof (cases "timestamp r = t")
    case True
    have "filter (\<lambda>x. timestamp x = t) rs = []"
      using timestamp_head_fresh [OF Cons.prems(1)] True by (auto simp: filter_empty_conv)
    with True show ?thesis by simp
  next
    case False
    with Cons show ?thesis by auto
  qed
qed

text \<open>
  C2. On a remote table with one row per timestamp (the empty table is one), any number of
  repeated calls of \<open>writeBatch\<close> with the same samples leaves the table that the first call
  leaves, and it holds exactly one row for each timestamp of the table and of the samples.
\<close>

theorem repeated_writeBatch_one_row_per_timestamp:
  assumes "distinct (map timestamp remote)" and "0 < n"
  shows "replay n samples remote = writeBatch samples remote
     \<and> timestamp ` set (replay n samples remote) = timestamp ` set remote \<union> timestamp ` set samples
     \<and> (\<forall>t \<in> timestamp ` set remote \<union> timestamp ` set samples.
           length (filter (\<lambda>r. timestamp r = t) (replay n samples remote)) = 1)"
proof -
  obtain m where n: "n = Suc m" using assms(2) by (cases n) auto
  have eq: "replay n samples remote = writeBatch samples remote"
    unfolding n using assms(1) by (rule replay_once)
  have ts: "timestamp ` set (writeBatch samples remote)
      = timestamp ` set remote \<union> timestamp ` set samples"
    by (auto simp: writeBatch_def set_fold_upsert)
  have d: "distinct (map timestamp (writeBatch samples remote))"
    using assms(1) by (simp add: writeBatch_def distinct_fold_upsert)
  have one: "length (filter (\<lambda>r. timestamp r = t) (writeBatch samples remote)) = 1"
    if "t \<in> timestamp ` set remote \<union> timestamp ` set samples" for t
    using one_row_per_key [OF d] that ts by simp
  show ?thesis using eq ts one by simp
qed


theorem repeated_writeBatch_one_row_per_timestamp_witness:
  "distinct (map timestamp ([] :: sensor_row list)) \<and> (0::nat) < 3
   \<and> replay 3 [row_a, row_b, row_a2] [] = [row_a2, row_b]
   \<and> length (filter (\<lambda>r. timestamp r = ''2024-05-02T08:00:00'')
        (replay 3 [row_a, row_b, row_a2] [])) = 1"
  using repeated_writeBatch_one_row_per_timestamp [of "[]" 3 "[row_a, row_b, row_a2]"]
  by (simp add: writeBatch_def row_a_def row_a2_def row_b_def numeral_3_eq_3)

end
